theory Spec2Isabelle
  imports Complex_Main "HOL-Library.Sublist"
begin

section \<open>Python values used by app.py\<close>

subsection \<open>Text\<close>

text \<open>
  A Python \<open>str\<close> is a sequence of Unicode code points; \<open>len\<close>, slicing and
  \<open>strip\<close> count code points. It is modelled as a list of code points. \<open>ustr\<close>
  embeds an ASCII literal of the source.
\<close>

type_synonym pystr = "nat list"

definition ustr :: "string \<Rightarrow> pystr" where
  "ustr s = map of_char s"

text \<open>Code points that \<open>str.isspace\<close> accepts; \<open>str.strip()\<close> removes them at both ends.\<close>

definition is_space :: "nat \<Rightarrow> bool" where
  "is_space c \<longleftrightarrow>
     (9 \<le> c \<and> c \<le> 13) \<or> (28 \<le> c \<and> c \<le> 32) \<or> c = 133 \<or> c = 160 \<or> c = 5760 \<or>
     (8192 \<le> c \<and> c \<le> 8202) \<or> c = 8232 \<or> c = 8233 \<or> c = 8239 \<or> c = 8287 \<or> c = 12288"

definition str_strip :: "pystr \<Rightarrow> pystr" where
  "str_strip s = rev (dropWhile is_space (rev (dropWhile is_space s)))"

text \<open>\<open>str(n)\<close> for an \<open>int\<close>: decimal digits, with a minus sign when negative.\<close>

fun str_nat :: "nat \<Rightarrow> pystr" where
  "str_nat n = (if n < 10 then [48 + n] else str_nat (n div 10) @ [48 + n mod 10])"

declare str_nat.simps [simp del]

definition str_int :: "int \<Rightarrow> pystr" where
  "str_int i = (if i < 0 then 45 # str_nat (nat (- i)) else str_nat (nat i))"

text \<open>A number printed with at least \<open>w\<close> digits, zero-filled on the left.\<close>

definition zpad :: "nat \<Rightarrow> nat \<Rightarrow> pystr" where
  "zpad w n = replicate (w - length (str_nat n)) 48 @ str_nat n"

subsection \<open>Floating-point numbers\<close>

text \<open>
  A Python \<open>float\<close> is an IEEE 754 binary64 value. A finite non-zero value is
  represented by the rational it denotes, \<open>Fin 0\<close> is \<open>+0.0\<close> and \<open>NegZero\<close> is \<open>-0.0\<close>.
\<close>

datatype pyfloat = Fin rat | NegZero | PosInf | NegInf | NaN

definition pow2 :: "int \<Rightarrow> rat" where
  "pow2 e = (if 0 \<le> e then 2 ^ nat e else 1 / 2 ^ nat (- e))"

function ilog2 :: "int \<Rightarrow> int" where
  "ilog2 n = (if n < 2 then 0 else 1 + ilog2 (n div 2))"
  by pat_completeness auto
termination
  by (relation "measure nat") auto

declare ilog2.simps [simp del]

text \<open>The exponent \<open>e\<close> with \<open>2 ^ e \<le> q < 2 ^ (e + 1)\<close>, for \<open>q > 0\<close>.\<close>

definition floor_log2 :: "rat \<Rightarrow> int" where
  "floor_log2 q =
     (let (a, b) = quotient_of q;
          d = ilog2 a - ilog2 b
      in if pow2 d \<le> q then d else d - 1)"

definition round_half_even :: "rat \<Rightarrow> int" where
  "round_half_even q =
     (let f = \<lfloor>q\<rfloor>; r = q - of_int f
      in if r < 1 / 2 then f else if 1 / 2 < r then f + 1
         else if even f then f else f + 1)"

text \<open>
  Round-to-nearest, ties-to-even, of a magnitude \<open>q \<ge> 0\<close> to binary64: 53 significant
  bits, least exponent \<open>-1022\<close> (subnormals below it), \<open>None\<close> on overflow.
\<close>

definition round_mag :: "rat \<Rightarrow> rat option" where
  "round_mag q =
     (if q = 0 then Some 0
      else let e = max (floor_log2 q) (- 1022);
               ulp = pow2 (e - 52);
               r = of_int (round_half_even (q / ulp)) * ulp
           in if pow2 1024 \<le> r then None else Some r)"

definition mk_float :: "bool \<Rightarrow> rat \<Rightarrow> pyfloat" where
  "mk_float neg q =
     (case round_mag q of
        None \<Rightarrow> (if neg then NegInf else PosInf)
      | Some m \<Rightarrow> (if m = 0 then (if neg then NegZero else Fin 0)
                  else Fin (if neg then - m else m)))"

text \<open>The binary64 nearest to a rational, as a literal such as \<open>0.2\<close> denotes it.\<close>

definition float_of_rat :: "rat \<Rightarrow> pyfloat" where
  "float_of_rat q = mk_float (q < 0) \<bar>q\<bar>"

text \<open>Comparison of a \<open>float\<close> with an \<open>int\<close>, which Python performs exactly.\<close>

fun float_lt_int :: "pyfloat \<Rightarrow> int \<Rightarrow> bool" where
  "float_lt_int (Fin q) n = (q < of_int n)"
| "float_lt_int NegZero n = (0 < n)"
| "float_lt_int PosInf n = False"
| "float_lt_int NegInf n = True"
| "float_lt_int NaN n = False"

fun float_gt_int :: "pyfloat \<Rightarrow> int \<Rightarrow> bool" where
  "float_gt_int (Fin q) n = (of_int n < q)"
| "float_gt_int NegZero n = (n < 0)"
| "float_gt_int PosInf n = True"
| "float_gt_int NegInf n = False"
| "float_gt_int NaN n = False"

text \<open>Subtraction of two floats, rounded once (\<open>x - y\<close>).\<close>

fun float_sub :: "pyfloat \<Rightarrow> pyfloat \<Rightarrow> pyfloat" where
  "float_sub NaN y = NaN"
| "float_sub x NaN = NaN"
| "float_sub PosInf PosInf = NaN"
| "float_sub NegInf NegInf = NaN"
| "float_sub PosInf y = PosInf"
| "float_sub NegInf y = NegInf"
| "float_sub x PosInf = NegInf"
| "float_sub x NegInf = PosInf"
| "float_sub NegZero NegZero = Fin 0"
| "float_sub NegZero (Fin b) = (if b = 0 then NegZero else float_of_rat (- b))"
| "float_sub (Fin a) NegZero = Fin a"
| "float_sub (Fin a) (Fin b) = (if a = b then Fin 0 else float_of_rat (a - b))"

text \<open>
  \<open>format(x, '.df')\<close>: the exact value rounded half-even to \<open>d\<close> decimals; the sign
  of a negative value is kept when it rounds to zero.
\<close>

definition fmt_mag :: "nat \<Rightarrow> rat \<Rightarrow> pystr" where
  "fmt_mag d q =
     (let n = nat (round_half_even (q * 10 ^ d))
      in str_nat (n div 10 ^ d) @ (if d = 0 then [] else 46 # zpad d (n mod 10 ^ d)))"

fun fmt_fixed :: "nat \<Rightarrow> pyfloat \<Rightarrow> pystr" where
  "fmt_fixed d (Fin q) = (if q < 0 then 45 # fmt_mag d (- q) else fmt_mag d q)"
| "fmt_fixed d NegZero = 45 # fmt_mag d 0"
| "fmt_fixed d PosInf = ustr ''inf''"
| "fmt_fixed d NegInf = ustr ''-inf''"
| "fmt_fixed d NaN = ustr ''nan''"

subsection \<open>Exceptions\<close>

text \<open>
  The handlers distinguish \<open>ValueError\<close> from every other \<open>Exception\<close>; each carries
  the text that \<open>str(e)\<close> returns.
\<close>

datatype exn = ValueError pystr | OtherError pystr

definition bind_exn :: "exn + 'a \<Rightarrow> ('a \<Rightarrow> exn + 'b) \<Rightarrow> exn + 'b" where
  "bind_exn m f = (case m of Inl e \<Rightarrow> Inl e | Inr x \<Rightarrow> f x)"

subsection \<open>\<open>float(str)\<close>\<close>

definition is_digit :: "nat \<Rightarrow> bool" where
  "is_digit c \<longleftrightarrow> 48 \<le> c \<and> c \<le> 57"

definition digits_value :: "pystr \<Rightarrow> int" where
  "digits_value ds = foldl (\<lambda>a c. 10 * a + (int c - 48)) 0 ds"

text \<open>
  The decimal syntax \<open>float\<close> accepts over the alphabet of digits, \<open>.\<close> and \<open>-\<close>:
  an optional leading \<open>-\<close>, then digits with at most one point and at least one digit.
  The result is the sign and the exact magnitude.
\<close>

definition parse_decimal :: "pystr \<Rightarrow> (bool \<times> rat) option" where
  "parse_decimal s =
     (let neg = (s \<noteq> [] \<and> hd s = 45);
          body = (if neg then tl s else s);
          ip = takeWhile is_digit body;
          rest = dropWhile is_digit body
      in case rest of
           [] \<Rightarrow> (if ip = [] then None else Some (neg, of_int (digits_value ip)))
         | c # fp \<Rightarrow>
             (if c = 46 \<and> list_all is_digit fp \<and> (ip \<noteq> [] \<or> fp \<noteq> [])
              then Some (neg, of_int (digits_value (ip @ fp)) / 10 ^ length fp)
              else None))"

text \<open>
  \<open>float(s)\<close> for a string \<open>s\<close> over that alphabet. The message of the
  \<open>ValueError\<close> quotes \<open>repr(s)\<close>, which for such a string is \<open>s\<close> in single quotes.
\<close>

definition py_float :: "pystr \<Rightarrow> exn + pyfloat" where
  "py_float s =
     (case parse_decimal s of
        None \<Rightarrow> Inl (ValueError (ustr ''could not convert string to float: '' @ [39] @ s @ [39]))
      | Some (neg, q) \<Rightarrow> Inr (mk_float neg q))"

section \<open>Input validation helpers\<close>

text \<open>\<open>re.sub(r'[^0-9.-]', '', s)\<close>: keep the ASCII digits, \<open>.\<close> and \<open>-\<close>.\<close>

definition is_numeric_char :: "nat \<Rightarrow> bool" where
  "is_numeric_char c \<longleftrightarrow> (48 \<le> c \<and> c \<le> 57) \<or> c = 46 \<or> c = 45"

definition re_sub_non_numeric :: "pystr \<Rightarrow> pystr" where
  "re_sub_non_numeric s = filter is_numeric_char s"

text \<open>
  \<open>sanitize_numeric_input(value, min_val, max_val, field_name)\<close>. The two range
  errors are raised inside the \<open>try\<close> block, so the \<open>except ValueError\<close> clause wraps
  them, like the error of \<open>float\<close>, in \<open>Invalid <field_name>: ...\<close>.
\<close>

definition sanitize_numeric_input ::
  "pystr \<Rightarrow> int option \<Rightarrow> int option \<Rightarrow> pystr \<Rightarrow> exn + pyfloat" where
  "sanitize_numeric_input value min_val max_val field_name =
     (let body =
        bind_exn (py_float (re_sub_non_numeric value)) (\<lambda>num_value.
        bind_exn (case min_val of
                    None \<Rightarrow> Inr ()
                  | Some lo \<Rightarrow>
                      if float_lt_int num_value lo
                      then Inl (ValueError (field_name @ ustr '' must be at least '' @ str_int lo))
                      else Inr ()) (\<lambda>_.
        bind_exn (case max_val of
                    None \<Rightarrow> Inr ()
                  | Some hi \<Rightarrow>
                      if float_gt_int num_value hi
                      then Inl (ValueError (field_name @ ustr '' must be at most '' @ str_int hi))
                      else Inr ()) (\<lambda>_.
        Inr num_value)))
      in case body of
           Inl (ValueError msg) \<Rightarrow>
             Inl (ValueError (ustr ''Invalid '' @ field_name @ ustr '': '' @ msg))
         | Inl (OtherError msg) \<Rightarrow> Inl (OtherError msg)
         | Inr v \<Rightarrow> Inr v)"

text \<open>
  \<open>sanitize_input(text, max_length)\<close>; form values are always strings, so the
  \<open>isinstance\<close> guard never fires.
\<close>

definition sanitize_input :: "pystr \<Rightarrow> nat \<Rightarrow> pystr" where
  "sanitize_input text max_length = take max_length (str_strip text)"

section \<open>Requests, responses and the process state\<close>

text \<open>
  \<open>request.form\<close> maps a field name to the (first) submitted value. A response is what
  the handler returns: \<open>jsonify(dict), status\<close>, a \<open>render_template\<close> call with its
  keyword arguments, or a \<open>send_file\<close> call with the canvas operations that filled
  the buffer. Templates, the PDF byte encoding and the framework's treatment of a
  returned response are outside app.py.
\<close>

type_synonym form = "pystr \<rightharpoonup> pystr"

datatype jvalue = JStr pystr | JBool bool

datatype ctxval = CStr pystr | CDict "(pystr \<times> pystr) list"

datatype canvas_op =
    SetFont pystr nat
  | DrawString pyfloat pyfloat pystr
  | Line pyfloat pyfloat pyfloat pyfloat
  | SetFillColorRGB pyfloat pyfloat pyfloat
  | ShowPage
  | Save

datatype response =
    Json nat "(pystr \<times> jvalue) list"
  | RenderTemplate pystr "(pystr \<times> ctxval) list"
  | SendFile "canvas_op list" bool pystr pystr

fun status :: "response \<Rightarrow> nat" where
  "status (Json code body) = code"
| "status (RenderTemplate name ctx) = 200"
| "status (SendFile buffer as_attachment download_name mimetype) = 200"

text \<open>
  The module globals \<open>model\<close> and \<open>label_encoder\<close>, set once at import: \<open>None\<close> when
  loading failed. A loaded classifier stands for \<open>model.predict(array)[0]\<close> on the
  1-by-7 array of the given values, a loaded encoder for
  \<open>label_encoder.inverse_transform([n])[0]\<close>; either may raise.
\<close>

record globals =
  model :: "(pyfloat list \<Rightarrow> exn + int) option"
  label_encoder :: "(int \<Rightarrow> exn + pystr) option"

text \<open>The calls a handler makes on the two artifacts, in the order made.\<close>

datatype event = ModelPredict "pyfloat list" | InverseTransform int

type_synonym outcome = "response \<times> event list"

text \<open>
  Library values that app.py imports: \<open>str.upper\<close> (driven by the Unicode case tables)
  and reportlab's page size \<open>A4\<close>, a pair \<open>(width, height)\<close>.
\<close>

record pylib =
  str_upper :: "pystr \<Rightarrow> pystr"
  A4 :: "pyfloat \<times> pyfloat"

text \<open>A reading of \<open>datetime.datetime.now()\<close> and the three renderings the app uses.\<close>

record datetime =
  year :: nat
  month :: nat
  day :: nat
  hour :: nat
  minute :: nat
  second :: nat
  microsecond :: nat

definition strftime_report :: "datetime \<Rightarrow> pystr" where
  \<comment> \<open>\<open>strftime('%Y-%m-%d %H:%M:%S')\<close>\<close>
  "strftime_report t =
     zpad 4 (year t) @ [45] @ zpad 2 (month t) @ [45] @ zpad 2 (day t) @ [32] @
     zpad 2 (hour t) @ [58] @ zpad 2 (minute t) @ [58] @ zpad 2 (second t)"

definition strftime_file :: "datetime \<Rightarrow> pystr" where
  \<comment> \<open>\<open>strftime('%Y%m%d_%H%M%S')\<close>\<close>
  "strftime_file t =
     zpad 4 (year t) @ zpad 2 (month t) @ zpad 2 (day t) @ [95] @
     zpad 2 (hour t) @ zpad 2 (minute t) @ zpad 2 (second t)"

definition isoformat :: "datetime \<Rightarrow> pystr" where
  "isoformat t =
     zpad 4 (year t) @ [45] @ zpad 2 (month t) @ [45] @ zpad 2 (day t) @ [84] @
     zpad 2 (hour t) @ [58] @ zpad 2 (minute t) @ [58] @ zpad 2 (second t) @
     (if microsecond t = 0 then [] else 46 # zpad 6 (microsecond t))"

section \<open>The decorator\<close>

text \<open>
  \<open>validate_required_fields(required_fields)(f)\<close>: the wrapper scans the fields in
  order and returns the 400 response at the first one that is absent or blank; only
  when none is does it call \<open>f\<close>.
\<close>

fun validate_required_fields :: "pystr list \<Rightarrow> (form \<Rightarrow> outcome) \<Rightarrow> form \<Rightarrow> outcome" where
  "validate_required_fields [] f frm = f frm"
| "validate_required_fields (field # rest) f frm =
     (if (case frm field of None \<Rightarrow> True | Some v \<Rightarrow> str_strip v = [])
      then (Json 400 [(ustr ''error'', JStr (ustr ''Missing required field: '' @ field))], [])
      else validate_required_fields rest f frm)"

text \<open>\<open>request.form[key]\<close>: a missing key raises a \<open>KeyError\<close> subclass, not a \<open>ValueError\<close>.\<close>

definition form_get :: "form \<Rightarrow> pystr \<Rightarrow> exn + pystr" where
  "form_get frm key =
     (case frm key of None \<Rightarrow> Inl (OtherError (ustr ''400 Bad Request'')) | Some v \<Rightarrow> Inr v)"

text \<open>One element of the list literals: \<open>sanitize_numeric_input(request.form[key], lo, hi, name)\<close>.\<close>

definition numeric_field :: "form \<Rightarrow> pystr \<Rightarrow> int \<Rightarrow> int \<Rightarrow> pystr \<Rightarrow> exn + pyfloat" where
  "numeric_field frm key lo hi name =
     bind_exn (form_get frm key) (\<lambda>v. sanitize_numeric_input v (Some lo) (Some hi) name)"

section \<open>\<open>/predict\<close>\<close>

text \<open>The \<open>try\<close> block of \<open>predict\<close>: the value rendered, or the exception raised, with the calls made.\<close>

definition predict_try ::
  "(pyfloat list \<Rightarrow> exn + int) \<Rightarrow> (int \<Rightarrow> exn + pystr) \<Rightarrow> form \<Rightarrow> (exn + response) \<times> event list" where
  "predict_try m enc frm =
     (case
        bind_exn (numeric_field frm (ustr ''N'') 0 200 (ustr ''Nitrogen (N)'')) (\<lambda>d0.
        bind_exn (numeric_field frm (ustr ''P'') 0 200 (ustr ''Phosphorus (P)'')) (\<lambda>d1.
        bind_exn (numeric_field frm (ustr ''K'') 0 200 (ustr ''Potassium (K)'')) (\<lambda>d2.
        bind_exn (numeric_field frm (ustr ''temperature'') (- 50) 100 (ustr ''Temperature'')) (\<lambda>d3.
        bind_exn (numeric_field frm (ustr ''humidity'') 0 100 (ustr ''Humidity'')) (\<lambda>d4.
        bind_exn (numeric_field frm (ustr ''ph'') 0 14 (ustr ''pH'')) (\<lambda>d5.
        bind_exn (numeric_field frm (ustr ''rainfall'') 0 1000 (ustr ''Rainfall'')) (\<lambda>d6.
        Inr [d0, d1, d2, d3, d4, d5, d6])))))))
      of
        Inl e \<Rightarrow> (Inl e, [])
      | Inr data \<Rightarrow>
          (let input_params =
                 [(ustr ''N'', fmt_fixed 1 (data ! 0)),
                  (ustr ''P'', fmt_fixed 1 (data ! 1)),
                  (ustr ''K'', fmt_fixed 1 (data ! 2)),
                  (ustr ''temperature'', fmt_fixed 1 (data ! 3)),
                  (ustr ''humidity'', fmt_fixed 1 (data ! 4)),
                  (ustr ''ph'', fmt_fixed 2 (data ! 5)),
                  (ustr ''rainfall'', fmt_fixed 1 (data ! 6))]
           in case m data of
                Inl e \<Rightarrow> (Inl e, [ModelPredict data])
              | Inr prediction_num \<Rightarrow>
                  (case enc prediction_num of
                     Inl e \<Rightarrow> (Inl e, [ModelPredict data, InverseTransform prediction_num])
                   | Inr prediction_label \<Rightarrow>
                       (Inr (RenderTemplate (ustr ''result.html'')
                               [(ustr ''crop'', CStr prediction_label),
                                (ustr ''params'', CDict input_params)]),
                        [ModelPredict data, InverseTransform prediction_num]))))"

text \<open>The body of \<open>predict\<close>: the guard on the two globals, then the \<open>try\<close> with its two handlers.\<close>

definition predict_body :: "globals \<Rightarrow> form \<Rightarrow> outcome" where
  "predict_body g frm =
     (case (model g, label_encoder g) of
        (Some m, Some enc) \<Rightarrow>
          (case predict_try m enc frm of
             (Inr r, evs) \<Rightarrow> (r, evs)
           | (Inl (ValueError msg), evs) \<Rightarrow> (Json 400 [(ustr ''error'', JStr msg)], evs)
           | (Inl (OtherError msg), evs) \<Rightarrow>
               (Json 500 [(ustr ''error'', JStr (ustr ''Prediction failed. Please try again.''))], evs))
      | _ \<Rightarrow>
          (Json 500 [(ustr ''error'',
                      JStr (ustr ''Models not loaded properly. Please check model files.''))], []))"

definition predict_fields :: "pystr list" where
  "predict_fields =
     [ustr ''N'', ustr ''P'', ustr ''K'', ustr ''temperature'', ustr ''humidity'', ustr ''ph'',
      ustr ''rainfall'']"

text \<open>The view function registered for \<open>/predict\<close>: the decorated \<open>predict\<close>.\<close>

definition predict :: "globals \<Rightarrow> form \<Rightarrow> outcome" where
  "predict g frm = validate_required_fields predict_fields (predict_body g) frm"

section \<open>\<open>/download_report\<close>\<close>

text \<open>The loop over \<open>params.items()\<close>: one line per entry, 20 points apart; returns the final \<open>y_position\<close>.\<close>

fun draw_params :: "pyfloat \<Rightarrow> (pystr \<times> pystr) list \<Rightarrow> canvas_op list \<times> pyfloat" where
  "draw_params y_position [] = ([], y_position)"
| "draw_params y_position ((param_name, param_value) # rest) =
     (let (ops, y') = draw_params (float_sub y_position (Fin 20)) rest
      in (DrawString (Fin 70) y_position
            ([8226, 32] @ param_name @ ustr '': '' @ param_value) # ops, y'))"

text \<open>
  The canvas calls between \<open>canvas.Canvas(buffer, pagesize=A4)\<close> and \<open>buffer.seek(0)\<close>,
  for the sanitized \<open>crop\<close>, the \<open>params\<close> dictionary in insertion order and the first
  clock reading.
\<close>

definition render_report ::
  "pylib \<Rightarrow> datetime \<Rightarrow> pystr \<Rightarrow> (pystr \<times> pystr) list \<Rightarrow> canvas_op list" where
  "render_report lib now1 crop params =
     (let (width, height) = A4 lib;
          current_time = strftime_report now1;
          (param_ops, y1) = draw_params (float_sub height (Fin 155)) params;
          y2 = float_sub y1 (Fin 15);
          y3 = float_sub y2 (Fin 25)
      in [SetFont (ustr ''Helvetica-Bold'') 20,
          DrawString (Fin 50) (float_sub height (Fin 60))
            ([127806, 32] @ ustr ''Crop Recommendation Report''),
          SetFont (ustr ''Helvetica'') 11,
          DrawString (Fin 50) (float_sub height (Fin 85)) (ustr ''Generated on: '' @ current_time),
          Line (Fin 50) (float_sub height (Fin 100)) (float_sub width (Fin 50))
            (float_sub height (Fin 100)),
          SetFont (ustr ''Helvetica-Bold'') 14,
          DrawString (Fin 50) (float_sub height (Fin 130)) ([128202, 32] @ ustr ''Input Parameters:''),
          SetFont (ustr ''Helvetica'') 12]
         @ param_ops @
         [SetFont (ustr ''Helvetica-Bold'') 14,
          DrawString (Fin 50) y2 ([127919, 32] @ ustr ''Recommendation Result:''),
          SetFont (ustr ''Helvetica-Bold'') 16,
          SetFillColorRGB (float_of_rat (2 / 10)) (float_of_rat (6 / 10)) (float_of_rat (2 / 10)),
          DrawString (Fin 70) y3 (ustr ''Recommended Crop: '' @ str_upper lib crop),
          SetFillColorRGB (Fin 0) (Fin 0) (Fin 0),
          SetFont (ustr ''Helvetica-Oblique'') 10,
          DrawString (Fin 50) (Fin 50) (ustr ''Generated by AgriTech Crop Recommendation System''),
          DrawString (Fin 50) (Fin 35)
            (ustr ''For agricultural guidance and optimal crop selection''),
          ShowPage,
          Save])"

text \<open>The \<open>try\<close> block of \<open>download_report\<close>; \<open>now1\<close> and \<open>now2\<close> are its two clock readings.\<close>

definition download_report_try :: "pylib \<Rightarrow> datetime \<times> datetime \<Rightarrow> form \<Rightarrow> exn + response" where
  "download_report_try lib clock frm =
     bind_exn (form_get frm (ustr ''crop'')) (\<lambda>raw_crop.
     (let crop = sanitize_input raw_crop 100 in
      bind_exn (numeric_field frm (ustr ''N'') 0 200 (ustr ''Nitrogen'')) (\<lambda>n.
      bind_exn (numeric_field frm (ustr ''P'') 0 200 (ustr ''Phosphorus'')) (\<lambda>p.
      bind_exn (numeric_field frm (ustr ''K'') 0 200 (ustr ''Potassium'')) (\<lambda>k.
      bind_exn (numeric_field frm (ustr ''temperature'') (- 50) 100 (ustr ''Temperature'')) (\<lambda>t.
      bind_exn (numeric_field frm (ustr ''humidity'') 0 100 (ustr ''Humidity'')) (\<lambda>h.
      bind_exn (numeric_field frm (ustr ''ph'') 0 14 (ustr ''pH'')) (\<lambda>ph.
      bind_exn (numeric_field frm (ustr ''rainfall'') 0 1000 (ustr ''Rainfall'')) (\<lambda>r.
      (let params =
             [(ustr ''Nitrogen (N)'', fmt_fixed 1 n @ ustr '' kg/ha''),
              (ustr ''Phosphorus (P)'', fmt_fixed 1 p @ ustr '' kg/ha''),
              (ustr ''Potassium (K)'', fmt_fixed 1 k @ ustr '' kg/ha''),
              (ustr ''Temperature'', fmt_fixed 1 t @ [176, 67]),
              (ustr ''Humidity'', fmt_fixed 1 h @ ustr ''%''),
              (ustr ''pH Level'', fmt_fixed 2 ph),
              (ustr ''Rainfall'', fmt_fixed 1 r @ ustr '' mm'')];
           buffer = render_report lib (fst clock) crop params;
           filename = ustr ''crop_recommendation_'' @ crop @ ustr ''_'' @
                      strftime_file (snd clock) @ ustr ''.pdf''
       in Inr (SendFile buffer True filename (ustr ''application/pdf''))))))))))))"

definition download_report_body :: "pylib \<Rightarrow> globals \<Rightarrow> datetime \<times> datetime \<Rightarrow> form \<Rightarrow> outcome" where
  "download_report_body lib g clock frm =
     (case download_report_try lib clock frm of
        Inr r \<Rightarrow> (r, [])
      | Inl (ValueError msg) \<Rightarrow> (Json 400 [(ustr ''error'', JStr msg)], [])
      | Inl (OtherError msg) \<Rightarrow>
          (Json 500 [(ustr ''error'', JStr (ustr ''Failed to generate PDF report''))], []))"

definition report_fields :: "pystr list" where
  "report_fields =
     [ustr ''crop'', ustr ''N'', ustr ''P'', ustr ''K'', ustr ''temperature'', ustr ''humidity'',
      ustr ''ph'', ustr ''rainfall'']"

text \<open>The view function registered for \<open>/download_report\<close>: the decorated \<open>download_report\<close>.\<close>

definition download_report :: "pylib \<Rightarrow> globals \<Rightarrow> datetime \<times> datetime \<Rightarrow> form \<Rightarrow> outcome" where
  "download_report lib g clock frm =
     validate_required_fields report_fields (download_report_body lib g clock) frm"

section \<open>\<open>/\<close>, \<open>/health\<close> and dispatch\<close>

definition home :: "outcome" where
  "home = (RenderTemplate (ustr ''index.html'') [], [])"

definition health_check :: "globals \<Rightarrow> datetime \<Rightarrow> outcome" where
  "health_check g now =
     (Json 200
        [(ustr ''status'', JStr (ustr ''healthy'')),
         (ustr ''models_loaded'', JBool (model g \<noteq> None \<and> label_encoder g \<noteq> None)),
         (ustr ''timestamp'', JStr (isoformat now))],
      [])"

text \<open>
  The four routes. No handler assigns to a module global, so serving a request returns
  the process state it was given; \<open>run\<close> serves a sequence of requests, each with the
  clock readings it will take.
\<close>

datatype request = GetHome | PostPredict form | PostDownloadReport form | GetHealth

fun serve :: "pylib \<Rightarrow> globals \<Rightarrow> datetime \<times> datetime \<Rightarrow> request \<Rightarrow> outcome \<times> globals" where
  "serve lib g clock GetHome = (home, g)"
| "serve lib g clock (PostPredict frm) = (predict g frm, g)"
| "serve lib g clock (PostDownloadReport frm) = (download_report lib g clock frm, g)"
| "serve lib g clock GetHealth = (health_check g (fst clock), g)"

fun run :: "pylib \<Rightarrow> globals \<Rightarrow> ((datetime \<times> datetime) \<times> request) list \<Rightarrow> outcome list \<times> globals" where
  "run lib g [] = ([], g)"
| "run lib g ((clock, req) # rest) =
     (let (out, g') = serve lib g clock req;
          (outs, g'') = run lib g' rest
      in (out # outs, g''))"

section \<open>Notions used in the statements\<close>

text \<open>
  A required field is blank when it is absent from the form or its value consists of
  whitespace only (the empty value included).
\<close>

definition blank :: "form \<Rightarrow> pystr \<Rightarrow> bool" where
  "blank frm field = (case frm field of None \<Rightarrow> True | Some v \<Rightarrow> list_all is_space v)"

text \<open>The process state after both artifacts failed to load.\<close>

definition no_models :: globals where
  "no_models = \<lparr>model = None, label_encoder = None\<rparr>"

text \<open>A parsed value lies outside the optional bounds given to the sanitizer.\<close>

definition outside :: "pyfloat \<Rightarrow> int option \<Rightarrow> int option \<Rightarrow> bool" where
  "outside x min_val max_val \<longleftrightarrow>
     (case min_val of None \<Rightarrow> False | Some lo \<Rightarrow> float_lt_int x lo) \<or>
     (case max_val of None \<Rightarrow> False | Some hi \<Rightarrow> float_gt_int x hi)"

text \<open>A float denotes a number in the closed interval from \<open>lo\<close> to \<open>hi\<close>.\<close>

fun in_bounds :: "pyfloat \<Rightarrow> int \<Rightarrow> int \<Rightarrow> bool" where
  "in_bounds (Fin q) lo hi = (of_int lo \<le> q \<and> q \<le> of_int hi)"
| "in_bounds NegZero lo hi = (lo \<le> 0 \<and> 0 \<le> hi)"
| "in_bounds PosInf lo hi = False"
| "in_bounds NegInf lo hi = False"
| "in_bounds NaN lo hi = False"

text \<open>A float denotes exactly the integer \<open>n\<close>.\<close>

fun float_eq_int :: "pyfloat \<Rightarrow> int \<Rightarrow> bool" where
  "float_eq_int (Fin q) n = (q = of_int n)"
| "float_eq_int NegZero n = (n = 0)"
| "float_eq_int PosInf n = False"
| "float_eq_int NegInf n = False"
| "float_eq_int NaN n = False"

text \<open>
  The seven numeric fields of \<open>/predict\<close> in the handler's order, each with its declared
  bounds and the display name passed to the sanitizer; and those of \<open>/download_report\<close>.
\<close>

definition predict_specs :: "(pystr \<times> int \<times> int \<times> pystr) list" where
  "predict_specs =
     [(ustr ''N'', 0, 200, ustr ''Nitrogen (N)''),
      (ustr ''P'', 0, 200, ustr ''Phosphorus (P)''),
      (ustr ''K'', 0, 200, ustr ''Potassium (K)''),
      (ustr ''temperature'', - 50, 100, ustr ''Temperature''),
      (ustr ''humidity'', 0, 100, ustr ''Humidity''),
      (ustr ''ph'', 0, 14, ustr ''pH''),
      (ustr ''rainfall'', 0, 1000, ustr ''Rainfall'')]"

definition report_specs :: "(pystr \<times> int \<times> int \<times> pystr) list" where
  "report_specs =
     [(ustr ''N'', 0, 200, ustr ''Nitrogen''),
      (ustr ''P'', 0, 200, ustr ''Phosphorus''),
      (ustr ''K'', 0, 200, ustr ''Potassium''),
      (ustr ''temperature'', - 50, 100, ustr ''Temperature''),
      (ustr ''humidity'', 0, 100, ustr ''Humidity''),
      (ustr ''ph'', 0, 14, ustr ''pH''),
      (ustr ''rainfall'', 0, 1000, ustr ''Rainfall'')]"

text \<open>Sanitizing a list of fields in order, stopping at the first exception.\<close>

fun validate_numeric :: "form \<Rightarrow> (pystr \<times> int \<times> int \<times> pystr) list \<Rightarrow> exn + pyfloat list" where
  "validate_numeric frm [] = Inr []"
| "validate_numeric frm ((key, lo, hi, name) # rest) =
     bind_exn (numeric_field frm key lo hi name) (\<lambda>x.
     bind_exn (validate_numeric frm rest) (\<lambda>xs. Inr (x # xs)))"

text \<open>
  The submitted value of a field is invalid: the field is absent, or what is left of its
  text does not parse, or the parsed value is not within the bounds.
\<close>

definition invalid :: "form \<Rightarrow> pystr \<times> int \<times> int \<times> pystr \<Rightarrow> bool" where
  "invalid frm spec =
     (case spec of (key, lo, hi, name) \<Rightarrow>
        (case frm key of
           None \<Rightarrow> True
         | Some v \<Rightarrow>
             (case py_float (re_sub_non_numeric v) of
                Inl e \<Rightarrow> True
              | Inr x \<Rightarrow> \<not> in_bounds x lo hi)))"

text \<open>The values of a vector lie within the bounds of the corresponding fields.\<close>

definition within_specs :: "pyfloat list \<Rightarrow> (pystr \<times> int \<times> int \<times> pystr) list \<Rightarrow> bool" where
  "within_specs data specs = list_all2 (\<lambda>x (key, lo, hi, name). in_bounds x lo hi) data specs"

text \<open>The two fixed error responses of \<open>/predict\<close>.\<close>

definition models_not_loaded :: response where
  "models_not_loaded =
     Json 500 [(ustr ''error'',
                JStr (ustr ''Models not loaded properly. Please check model files.''))]"

definition bad_request :: "pystr \<Rightarrow> response" where
  "bad_request msg = Json 400 [(ustr ''error'', JStr msg)]"

text \<open>
  A concrete process state and request, for evaluating the handlers: a classifier that
  answers class 20 for every vector, an encoder that decodes every class to \<open>rice\<close>, and
  the form of the specification's example.
\<close>

definition sample_globals :: globals where
  "sample_globals =
     \<lparr>model = Some (\<lambda>data. Inr 20), label_encoder = Some (\<lambda>n. Inr (ustr ''rice''))\<rparr>"

definition sample_form :: form where
  "sample_form =
     map_of [(ustr ''crop'', ustr ''rice''), (ustr ''N'', ustr ''90''), (ustr ''P'', ustr ''42''),
             (ustr ''K'', ustr ''43''), (ustr ''temperature'', ustr ''20.8''),
             (ustr ''humidity'', ustr ''82''), (ustr ''ph'', ustr ''6.5''),
             (ustr ''rainfall'', ustr ''202.9'')]"

definition sample_vector :: "pyfloat list" where
  "sample_vector =
     [Fin 90, Fin 42, Fin 43, Fin (5854679515581645 / 281474976710656), Fin 82, Fin (13 / 2),
      Fin (7138909096824013 / 35184372088832)]"

section \<open>Required fields\<close>

lemma str_strip_Nil_iff: "str_strip v = [] \<longleftrightarrow> list_all is_space v"
proof -
  define d where "d = dropWhile is_space v"
  have "d \<noteq> [] \<Longrightarrow> \<not> is_space (hd d)"
    unfolding d_def by (rule hd_dropWhile)
  then have "d \<noteq> [] \<Longrightarrow> \<exists>x\<in>set d. \<not> is_space x"
    using hd_in_set by blast
  then have 1: "(\<forall>x\<in>set d. is_space x) \<longleftrightarrow> d = []"
    by auto
  have 2: "d = [] \<longleftrightarrow> (\<forall>x\<in>set v. is_space x)"
    unfolding d_def by (simp add: dropWhile_eq_Nil_conv)
  have "str_strip v = [] \<longleftrightarrow> (\<forall>x\<in>set d. is_space x)"
    by (simp add: str_strip_def d_def dropWhile_eq_Nil_conv)
  with 1 2 show ?thesis
    by (simp add: list_all_iff)
qed

lemma validate_scan:
  "\<exists>f\<in>set fs. blank frm f \<Longrightarrow>
   \<exists>pre f post. fs = pre @ f # post \<and> (\<forall>x\<in>set pre. \<not> blank frm x) \<and> blank frm f \<and>
     (\<forall>h. validate_required_fields fs h frm =
        (Json 400 [(ustr ''error'', JStr (ustr ''Missing required field: '' @ f))], []))"
proof (induction fs)
  case Nil
  then show ?case by simp
next
  case (Cons a fs)
  show ?case
  proof (cases "blank frm a")
    case True
    then have "\<forall>h. validate_required_fields (a # fs) h frm =
        (Json 400 [(ustr ''error'', JStr (ustr ''Missing required field: '' @ a))], [])"
      by (auto simp: blank_def str_strip_Nil_iff split: option.splits)
    with True show ?thesis by (intro exI[of _ "[]"] exI[of _ a] exI[of _ fs]) simp
  next
    case False
    with Cons.prems have "\<exists>f\<in>set fs. blank frm f" by auto
    from Cons.IH[OF this] obtain pre f post where
      h: "fs = pre @ f # post" "\<forall>x\<in>set pre. \<not> blank frm x" "blank frm f"
         "\<forall>h. validate_required_fields fs h frm =
        (Json 400 [(ustr ''error'', JStr (ustr ''Missing required field: '' @ f))], [])"
      by blast
    from False have "\<forall>h. validate_required_fields (a # fs) h frm = validate_required_fields fs h frm"
      by (auto simp: blank_def str_strip_Nil_iff split: option.splits)
    with h False show ?thesis
      by (intro exI[of _ "a # pre"] exI[of _ f] exI[of _ post]) simp
  qed
qed

lemma validate_pass:
  "\<forall>f\<in>set fs. \<not> blank frm f \<Longrightarrow> validate_required_fields fs h frm = h frm"
  by (induction fs) (auto simp: blank_def str_strip_Nil_iff split: option.splits)

section \<open>The numeric sanitizer\<close>

lemma mk_float_not_NaN: "mk_float neg q \<noteq> NaN"
  by (simp add: mk_float_def split: option.splits)

lemma py_float_cases:
  "(\<exists>m. py_float s = Inl (ValueError m)) \<or> (\<exists>x. py_float s = Inr x \<and> x \<noteq> NaN)"
  by (auto simp: py_float_def mk_float_not_NaN split: option.splits)

lemma not_outside_in_bounds:
  "x \<noteq> NaN \<Longrightarrow> \<not> outside x (Some lo) (Some hi) \<longleftrightarrow> in_bounds x lo hi"
  by (cases x) (auto simp: outside_def)

lemma sanitize_parse_error:
  "py_float (re_sub_non_numeric v) = Inl (ValueError m) \<Longrightarrow>
   sanitize_numeric_input v lo hi name =
     Inl (ValueError (ustr ''Invalid '' @ name @ ustr '': '' @ m))"
  by (simp add: sanitize_numeric_input_def bind_exn_def)

lemma sanitize_below:
  "py_float (re_sub_non_numeric v) = Inr x \<Longrightarrow> float_lt_int x lo \<Longrightarrow>
   sanitize_numeric_input v (Some lo) hi name =
     Inl (ValueError (ustr ''Invalid '' @ name @ ustr '': '' @ name @ ustr '' must be at least '' @
                      str_int lo))"
  by (simp add: sanitize_numeric_input_def bind_exn_def)

lemma sanitize_above:
  "py_float (re_sub_non_numeric v) = Inr x \<Longrightarrow>
   \<not> (case lo of None \<Rightarrow> False | Some l \<Rightarrow> float_lt_int x l) \<Longrightarrow> float_gt_int x hi \<Longrightarrow>
   sanitize_numeric_input v lo (Some hi) name =
     Inl (ValueError (ustr ''Invalid '' @ name @ ustr '': '' @ name @ ustr '' must be at most '' @
                      str_int hi))"
  by (auto simp: sanitize_numeric_input_def bind_exn_def split: option.splits)

lemma sanitize_ok:
  "py_float (re_sub_non_numeric v) = Inr x \<Longrightarrow> \<not> outside x lo hi \<Longrightarrow>
   sanitize_numeric_input v lo hi name = Inr x"
  by (auto simp: sanitize_numeric_input_def bind_exn_def outside_def split: option.splits)

lemma sanitize_outside:
  assumes "py_float (re_sub_non_numeric v) = Inr x" and "outside x lo hi"
  shows "\<exists>msg. sanitize_numeric_input v lo hi name = Inl (ValueError msg) \<and> sublist name msg"
proof (cases "case lo of None \<Rightarrow> False | Some l \<Rightarrow> float_lt_int x l")
  case True
  then obtain l where "lo = Some l" "float_lt_int x l"
    by (auto split: option.splits)
  with assms(1) show ?thesis
    by (auto simp: sanitize_below intro: sublist_appendI)
next
  case False
  with assms(2) obtain h where "hi = Some h" "float_gt_int x h"
    by (auto simp: outside_def split: option.splits)
  with assms(1) False show ?thesis
    by (auto simp: sanitize_above intro: sublist_appendI)
qed

lemma re_sub_non_numeric_alphabet:
  "re_sub_non_numeric v = filter (\<lambda>c. c \<in> set (ustr ''0123456789.-'')) v"
proof -
  have "is_numeric_char c \<longleftrightarrow> c \<in> set (ustr ''0123456789.-'')" for c
    by (auto simp: is_numeric_char_def ustr_def) arith
  then have "is_numeric_char = (\<lambda>c. c \<in> set (ustr ''0123456789.-''))"
    by (intro ext)
  then show ?thesis
    by (simp only: re_sub_non_numeric_def)
qed

section \<open>The \<open>/predict\<close> pipeline\<close>

lemma numeric_field_cases:
  "(\<exists>m. numeric_field frm key lo hi name = Inl (OtherError m) \<and> frm key = None) \<or>
   (\<exists>m. numeric_field frm key lo hi name = Inl (ValueError m) \<and> sublist name m \<and>
        invalid frm (key, lo, hi, name)) \<or>
   (\<exists>x. numeric_field frm key lo hi name = Inr x \<and> in_bounds x lo hi \<and>
        \<not> invalid frm (key, lo, hi, name))"
proof (cases "frm key")
  case None
  then show ?thesis
    by (simp add: numeric_field_def form_get_def bind_exn_def)
next
  case (Some v)
  then have nf: "numeric_field frm key lo hi name = sanitize_numeric_input v (Some lo) (Some hi) name"
    by (simp add: numeric_field_def form_get_def bind_exn_def)
  from py_float_cases[of "re_sub_non_numeric v"] show ?thesis
  proof (elim disjE exE conjE)
    fix m assume "py_float (re_sub_non_numeric v) = Inl (ValueError m)"
    with Some nf show ?thesis
      by (auto simp: sanitize_parse_error invalid_def intro: sublist_appendI)
  next
    fix x assume x: "py_float (re_sub_non_numeric v) = Inr x" "x \<noteq> NaN"
    show ?thesis
    proof (cases "outside x (Some lo) (Some hi)")
      case True
      with x Some nf sanitize_outside[OF x(1) True, of name] show ?thesis
        by (auto simp: invalid_def not_outside_in_bounds[symmetric])
    next
      case False
      with x Some nf show ?thesis
        by (auto simp: sanitize_ok invalid_def not_outside_in_bounds)
    qed
  qed
qed

lemma validate_numeric_Inr:
  "validate_numeric frm specs = Inr data \<Longrightarrow>
   within_specs data specs \<and> (\<forall>s\<in>set specs. \<not> invalid frm s)"
proof (induction specs arbitrary: data)
  case Nil
  then show ?case by (simp add: within_specs_def)
next
  case (Cons s specs)
  obtain key lo hi name where s: "s = (key, lo, hi, name)"
    by (cases s) auto
  from Cons.prems s obtain x xs where
    x: "numeric_field frm key lo hi name = Inr x" and
    xs: "validate_numeric frm specs = Inr xs" and d: "data = x # xs"
    by (auto simp: bind_exn_def split: sum.splits)
  from numeric_field_cases[of frm key lo hi name] x
  have "in_bounds x lo hi" "\<not> invalid frm (key, lo, hi, name)"
    by auto
  with Cons.IH[OF xs] s d show ?case
    by (simp add: within_specs_def)
qed

lemma validate_numeric_all_valid:
  "\<forall>s\<in>set specs. \<not> invalid frm s \<Longrightarrow> \<exists>data. validate_numeric frm specs = Inr data"
proof (induction specs)
  case Nil
  then show ?case by simp
next
  case (Cons s specs)
  obtain key lo hi name where s: "s = (key, lo, hi, name)"
    by (cases s) auto
  from Cons.prems s numeric_field_cases[of frm key lo hi name]
  obtain x where "numeric_field frm key lo hi name = Inr x"
    by (auto simp: invalid_def)
  moreover from Cons obtain xs where "validate_numeric frm specs = Inr xs"
    by auto
  ultimately show ?case
    using s by (simp add: bind_exn_def)
qed

lemma validate_numeric_first_error:
  "specs = pre @ (key, lo, hi, name) # post \<Longrightarrow> \<forall>s\<in>set pre. \<not> invalid frm s \<Longrightarrow>
   numeric_field frm key lo hi name = Inl e \<Longrightarrow> validate_numeric frm specs = Inl e"
proof (induction pre arbitrary: specs)
  case Nil
  then show ?case by (simp add: bind_exn_def)
next
  case (Cons s pre)
  obtain k l h n where s: "s = (k, l, h, n)"
    by (cases s) auto
  from Cons.prems(2) s numeric_field_cases[of frm k l h n]
  obtain x where x: "numeric_field frm k l h n = Inr x"
    by (auto simp: invalid_def)
  from Cons.IH[OF refl _ Cons.prems(3)] Cons.prems(2)
  have "validate_numeric frm (pre @ (key, lo, hi, name) # post) = Inl e"
    by simp
  with Cons.prems(1) s x show ?case
    by (simp add: bind_exn_def)
qed

lemma validate_numeric_Inl:
  "validate_numeric frm specs = Inl e \<Longrightarrow>
   \<exists>pre key lo hi name post. specs = pre @ (key, lo, hi, name) # post \<and>
      (\<forall>s\<in>set pre. \<not> invalid frm s) \<and> numeric_field frm key lo hi name = Inl e"
proof (induction specs)
  case Nil
  then show ?case by simp
next
  case (Cons s specs)
  obtain k l h n where s: "s = (k, l, h, n)"
    by (cases s) auto
  show ?case
  proof (cases "numeric_field frm k l h n")
    case (Inl e')
    with Cons.prems s have "e' = e"
      by (simp add: bind_exn_def)
    with Inl s show ?thesis
      by (intro exI[of _ "[]"] exI[of _ k] exI[of _ l] exI[of _ h] exI[of _ n] exI[of _ specs]) simp
  next
    case (Inr x)
    with Cons.prems s have "validate_numeric frm specs = Inl e"
      by (auto simp: bind_exn_def split: sum.splits)
    from Cons.IH[OF this] obtain pre key lo hi name post where
      h: "specs = pre @ (key, lo, hi, name) # post" "\<forall>s\<in>set pre. \<not> invalid frm s"
         "numeric_field frm key lo hi name = Inl e"
      by blast
    from Inr numeric_field_cases[of frm k l h n] have "\<not> invalid frm (k, l, h, n)"
      by auto
    with h s show ?thesis
      by (intro exI[of _ "s # pre"] exI[of _ key] exI[of _ lo] exI[of _ hi] exI[of _ name]
            exI[of _ post]) simp
  qed
qed

text \<open>The list literal of \<open>predict\<close> is the ordered validation of its seven fields.\<close>

lemma predict_try_data:
  "predict_try m enc frm =
     (case validate_numeric frm predict_specs of
        Inl e \<Rightarrow> (Inl e, [])
      | Inr data \<Rightarrow>
          (case m data of
             Inl e \<Rightarrow> (Inl e, [ModelPredict data])
           | Inr n \<Rightarrow>
               (case enc n of
                  Inl e \<Rightarrow> (Inl e, [ModelPredict data, InverseTransform n])
                | Inr label \<Rightarrow>
                    (Inr (RenderTemplate (ustr ''result.html'')
                            [(ustr ''crop'', CStr label),
                             (ustr ''params'',
                              CDict [(ustr ''N'', fmt_fixed 1 (data ! 0)),
                                     (ustr ''P'', fmt_fixed 1 (data ! 1)),
                                     (ustr ''K'', fmt_fixed 1 (data ! 2)),
                                     (ustr ''temperature'', fmt_fixed 1 (data ! 3)),
                                     (ustr ''humidity'', fmt_fixed 1 (data ! 4)),
                                     (ustr ''ph'', fmt_fixed 2 (data ! 5)),
                                     (ustr ''rainfall'', fmt_fixed 1 (data ! 6))])]),
                     [ModelPredict data, InverseTransform n]))))"
  by (simp add: predict_try_def predict_specs_def bind_exn_def Let_def split: sum.splits)

lemma predict_body_no_models:
  "model g = None \<or> label_encoder g = None \<Longrightarrow> predict_body g frm = (models_not_loaded, [])"
  by (auto simp: predict_body_def models_not_loaded_def split: option.splits)

lemma predict_body_value_error:
  "model g = Some m \<Longrightarrow> label_encoder g = Some enc \<Longrightarrow>
   validate_numeric frm predict_specs = Inl (ValueError msg) \<Longrightarrow>
   predict_body g frm = (bad_request msg, [])"
  by (simp add: predict_body_def predict_try_data bad_request_def)

lemma predict_body_events:
  "ModelPredict data \<in> set (snd (predict_body g frm)) \<Longrightarrow>
   validate_numeric frm predict_specs = Inr data"
  by (auto simp: predict_body_def predict_try_data split: option.splits sum.splits exn.splits)

lemma predict_body_invalid:
  "validate_numeric frm predict_specs = Inl e \<Longrightarrow>
   snd (predict_body g frm) = [] \<and>
   (status (fst (predict_body g frm)) = 400 \<or> status (fst (predict_body g frm)) = 500)"
  by (auto simp: predict_body_def predict_try_data split: option.splits sum.splits exn.splits)

lemma predict_blank:
  "\<exists>f\<in>set predict_fields. blank frm f \<Longrightarrow>
   snd (predict g frm) = [] \<and> status (fst (predict g frm)) = 400"
  using validate_scan[of predict_fields frm] by (auto simp: predict_def)

lemma predict_present:
  "\<forall>f\<in>set predict_fields. \<not> blank frm f \<Longrightarrow> predict g frm = predict_body g frm"
  by (simp add: predict_def validate_pass)

text \<open>
  Claim C4. For a request to \<open>/predict\<close> or \<open>/download_report\<close> in which some required
  field is absent or whitespace-only, the response is the 400 naming the first such
  field in the handler's declared order, it is not a 500, and the decorated function is
  never called: the response is the same whatever function \<open>h\<close> the decorator wraps, so no
  field is parsed.
\<close>

theorem missing_required_field_400:
  assumes "fs = predict_fields \<and> view = predict g \<or>
           fs = report_fields \<and> view = download_report lib g clock"
    and "\<exists>f\<in>set fs. blank frm f"
  shows "\<exists>pre f post. fs = pre @ f # post \<and> (\<forall>x\<in>set pre. \<not> blank frm x) \<and> blank frm f \<and>
           view frm = (Json 400 [(ustr ''error'', JStr (ustr ''Missing required field: '' @ f))], []) \<and>
           status (fst (view frm)) \<noteq> 500 \<and>
           (\<forall>h. validate_required_fields fs h frm = view frm)"
proof -
  from validate_scan[OF assms(2)] obtain pre f post where
    h: "fs = pre @ f # post" "\<forall>x\<in>set pre. \<not> blank frm x" "blank frm f"
       "\<forall>h. validate_required_fields fs h frm =
        (Json 400 [(ustr ''error'', JStr (ustr ''Missing required field: '' @ f))], [])"
    by blast
  from assms(1) h(4) have v: "view frm =
        (Json 400 [(ustr ''error'', JStr (ustr ''Missing required field: '' @ f))], [])"
    by (auto simp: predict_def download_report_def)
  show ?thesis
    using h v by (intro exI[of _ pre] exI[of _ f] exI[of _ post]) simp
qed

theorem missing_required_field_400_witness:
  "(\<exists>f\<in>set predict_fields. blank Map.empty f) \<and>
   status (fst (predict no_models Map.empty)) = 400 \<and> snd (predict no_models Map.empty) = []"
proof -
  have b: "\<exists>f\<in>set predict_fields. blank Map.empty f"
    by (auto simp: predict_fields_def blank_def)
  from missing_required_field_400[of predict_fields "predict no_models" no_models undefined undefined Map.empty, OF _ b]
  obtain f where "predict no_models Map.empty =
     (Json 400 [(ustr ''error'', JStr (ustr ''Missing required field: '' @ f))], [])"
    by auto
  with b show ?thesis by simp
qed
text \<open>
  Claim C2. \<open>sanitize_numeric_input\<close> keeps of the raw text exactly the characters
  \<open>0\<close>..\<open>9\<close>, \<open>.\<close> and \<open>-\<close> and parses what remains as a float. When the parse fails, or the
  parsed value lies outside the bounds that were given, the result is a \<open>ValueError\<close>
  whose message contains the field name; in every other case the result is the parsed
  value. The result is a function of the four arguments and nothing else.
\<close>

theorem sanitize_numeric_input_contract:
  "re_sub_non_numeric v = filter (\<lambda>c. c \<in> set (ustr ''0123456789.-'')) v \<and>
   (case py_float (re_sub_non_numeric v) of
      Inl e \<Rightarrow>
        (\<exists>msg. sanitize_numeric_input v lo hi name = Inl (ValueError msg) \<and> sublist name msg)
    | Inr x \<Rightarrow>
        (if outside x lo hi
         then (\<exists>msg. sanitize_numeric_input v lo hi name = Inl (ValueError msg) \<and> sublist name msg)
         else sanitize_numeric_input v lo hi name = Inr x))"
proof -
  have "\<exists>msg. sanitize_numeric_input v lo hi name = Inl (ValueError msg) \<and> sublist name msg"
    if "py_float (re_sub_non_numeric v) = Inl e" for e
  proof -
    from py_float_cases[of "re_sub_non_numeric v"] that obtain m where "e = ValueError m"
      by auto
    with that show ?thesis
      by (auto simp: sanitize_parse_error intro: sublist_appendI)
  qed
  then show ?thesis
    by (auto simp: re_sub_non_numeric_alphabet sanitize_outside sanitize_ok split: sum.splits)
qed

theorem sanitize_numeric_input_contract_witness:
  "sanitize_numeric_input (ustr ''20.5 C'') (Some (- 50)) (Some 100) (ustr ''Temperature'') =
     Inr (Fin (41 / 2)) \<and>
   (\<exists>msg. sanitize_numeric_input (ustr ''abc'') (Some 0) (Some 200) (ustr ''Nitrogen (N)'') =
      Inl (ValueError msg) \<and> sublist (ustr ''Nitrogen (N)'') msg)"
proof -
  have p1: "py_float (re_sub_non_numeric (ustr ''20.5 C'')) = Inr (Fin (41 / 2))"
    by code_simp
  have o1: "\<not> outside (Fin (41 / 2)) (Some (- 50)) (Some 100)"
    by (simp add: outside_def)
  have p2: "py_float (re_sub_non_numeric (ustr ''abc'')) =
      Inl (ValueError (ustr ''could not convert string to float: '' @ [39, 39]))"
    by code_simp
  from sanitize_numeric_input_contract[of "ustr ''20.5 C''" "Some (- 50)" "Some 100" "ustr ''Temperature''"]
    sanitize_numeric_input_contract[of "ustr ''abc''" "Some 0" "Some 200" "ustr ''Nitrogen (N)''"]
  show ?thesis
    by (simp add: p1 o1 p2)
qed

end
